theory Spec2Isabelle
  imports Main "HOL-Library.Char_ord" "HOL-Library.List_Lexorder"
begin

section \<open>The tabular layers of merlin_models/tf/tabular.py\<close>

text \<open>
  The Python exceptions the layers can raise. \<open>TFShapeError\<close> stands for the error with
  which the tensor framework refuses the shapes it is given (a ValueError while tracing,
  an InvalidArgumentError when running eagerly).
\<close>

datatype err = AssertionError | AttributeError | KeyError | IndexError | TypeError | TFShapeError

subsection \<open>Static shapes\<close>

text \<open>
  The values of an \<open>input_shapes\<close> dict. A leaf tensor has a \<open>TensorShape\<close>, a list of
  dimensions of which each is an int or None (unknown); a ragged column, a pair
  (values, row_lengths), has a Python tuple of shapes. \<open>isinstance(i, tuple)\<close> tells
  them apart. A dict is an association list in insertion order.
\<close>

datatype shape = TensorShape "nat option list" | ShapeTuple "shape list"

text \<open>What indexing a shape gives: a dimension of a tensor shape, or a member of a tuple.\<close>

datatype item = Dim "nat option" | Member shape

fun is_tuple :: "shape \<Rightarrow> bool" where
  "is_tuple (ShapeTuple ss) = True"
| "is_tuple (TensorShape ds) = False"

definition py_index :: "'a list \<Rightarrow> int \<Rightarrow> err + 'a" where
  \<comment> \<open>\<open>xs[i]\<close>: a negative index counts from the end, out of range raises IndexError.\<close>
  "py_index xs i =
     (if 0 \<le> i \<and> i < int (length xs) then Inr (xs ! nat i)
      else if i < 0 \<and> - int (length xs) \<le> i then Inr (xs ! nat (int (length xs) + i))
      else Inl IndexError)"

fun getitem :: "shape \<Rightarrow> int \<Rightarrow> err + item" where
  "getitem (TensorShape ds) i = map_sum id Dim (py_index ds i)"
| "getitem (ShapeTuple ss) i = map_sum id Member (py_index ss i)"

definition bind :: "err + 'a \<Rightarrow> ('a \<Rightarrow> err + 'b) \<Rightarrow> err + 'b" where
  \<comment> \<open>Sequencing: an exception of the first step is the exception of the whole.\<close>
  "bind m f = (case m of Inl e \<Rightarrow> Inl e | Inr x \<Rightarrow> f x)"

fun mapM :: "('a \<Rightarrow> err + 'b) \<Rightarrow> 'a list \<Rightarrow> err + 'b list" where
  \<comment> \<open>A list comprehension whose element expression may raise: left to right.\<close>
  "mapM f [] = Inr []"
| "mapM f (x # xs) = bind (f x) (\<lambda>y. bind (mapM f xs) (\<lambda>ys. Inr (y # ys)))"

definition calculate_batch_size_from_input_shapes :: "(string \<times> shape) list \<Rightarrow> err + item" where
  \<comment> \<open>\<open>[i for i in input_shapes.values() if not isinstance(i, tuple)][0][0]\<close>\<close>
  "calculate_batch_size_from_input_shapes input_shapes =
     bind (py_index (filter (\<lambda>i. \<not> is_tuple i) (map snd input_shapes)) 0)
          (\<lambda>i. getitem i 0)"

subsection \<open>Shape inference of the aggregators\<close>

text \<open>
  What \<open>sum\<close> computes: Python adds from 0, left to right, and the running sum is an int
  only as long as ints are added. An int plus a \<open>TensorShape\<close> is handed to
  \<open>TensorShape.__radd__\<close>, which gives the shape with the int put in front of its
  dimensions; from then on the running sum is a shape, to which \<open>TensorShape.__add__\<close>
  appends an int as one more dimension, or the dimensions of another shape, and which
  becomes the shape of unknown rank when None is added. An int plus None, an int plus a
  tuple, and a shape plus a non-empty tuple of shapes raise TypeError.
\<close>

datatype total = IntSum nat | ShapeSum "nat option list" | UnknownShapeSum

fun py_add :: "total \<Rightarrow> item \<Rightarrow> err + total" where
  "py_add (IntSum a) (Dim (Some n)) = Inr (IntSum (a + n))"
| "py_add (IntSum a) (Dim None) = Inl TypeError"
| "py_add (IntSum a) (Member (TensorShape ds)) = Inr (ShapeSum (Some a # ds))"
| "py_add (IntSum a) (Member (ShapeTuple ms)) = Inl TypeError"
| "py_add (ShapeSum acc) (Dim (Some n)) = Inr (ShapeSum (acc @ [Some n]))"
| "py_add (ShapeSum acc) (Dim None) = Inr UnknownShapeSum"
| "py_add (ShapeSum acc) (Member (TensorShape ds)) = Inr (ShapeSum (acc @ ds))"
| "py_add (ShapeSum acc) (Member (ShapeTuple ms)) =
     (if ms = [] then Inr (ShapeSum acc) else Inl TypeError)"
| "py_add UnknownShapeSum (Dim d) = Inr UnknownShapeSum"
| "py_add UnknownShapeSum (Member (TensorShape ds)) = Inr UnknownShapeSum"
| "py_add UnknownShapeSum (Member (ShapeTuple ms)) =
     (if ms = [] then Inr UnknownShapeSum else Inl TypeError)"

fun py_sum_from :: "total \<Rightarrow> item list \<Rightarrow> err + total" where
  "py_sum_from acc [] = Inr acc"
| "py_sum_from acc (x # xs) = bind (py_add acc x) (\<lambda>acc'. py_sum_from acc' xs)"

definition py_sum :: "item list \<Rightarrow> err + total" where
  \<comment> \<open>\<open>sum(xs)\<close>\<close>
  "py_sum xs = py_sum_from (IntSum 0) xs"

definition ConcatFeatures_compute_output_shape :: "(string \<times> shape) list \<Rightarrow> err + (item \<times> total)" where
  \<comment> \<open>\<open>batch_size = calculate_batch_size_from_input_shapes(input_shapes)\<close>
      \<open>return batch_size, sum([i[1] for i in input_shapes.values()])\<close>\<close>
  "ConcatFeatures_compute_output_shape input_shapes =
     bind (calculate_batch_size_from_input_shapes input_shapes) (\<lambda>batch_size.
     bind (mapM (\<lambda>i. getitem i 1) (map snd input_shapes)) (\<lambda>widths.
     bind (py_sum widths) (\<lambda>total.
     Inr (batch_size, total))))"

definition StackFeatures_compute_output_shape ::
  "(string \<times> shape) list \<Rightarrow> err + (item \<times> nat \<times> item)" where
  \<comment> \<open>\<open>batch_size = calculate_batch_size_from_input_shapes(input_shapes)\<close>
      \<open>last_dim = [i for i in input_shapes.values()][0][-1]\<close>
      \<open>return batch_size, len(input_shapes), last_dim\<close>\<close>
  "StackFeatures_compute_output_shape input_shapes =
     bind (calculate_batch_size_from_input_shapes input_shapes) (\<lambda>batch_size.
     bind (bind (py_index (map snd input_shapes) 0) (\<lambda>i. getitem i (- 1))) (\<lambda>last_dim.
     Inr (batch_size, length input_shapes, last_dim)))"

subsection \<open>Run-time values\<close>

text \<open>
  What a layer is called with and returns: a tensor, a dict from names to values (in
  insertion order, keys unique), or a tuple of values. The layers below that only
  route tensors are polymorphic in the tensor type \<open>'t\<close>.

  A dict is a mutable object: a call that changes its argument in place is modelled by
  returning, beside its result, the argument as it is after the call.
\<close>

datatype 't pyval = Tensor 't | Dict "(string \<times> 't pyval) list" | Tuple "'t pyval list"

type_synonym 't dict = "(string \<times> 't pyval) list"

type_synonym 't layer = "'t pyval \<Rightarrow> err + ('t pyval \<times> 't pyval)"

text \<open>A layer whose result is a dict (a tabular layer).\<close>

type_synonym 't tabular_layer = "'t pyval \<Rightarrow> err + ('t dict \<times> 't pyval)"

definition dict_pop :: "string \<Rightarrow> (string \<times> 'v) list \<Rightarrow> err + (string \<times> 'v) list" where
  \<comment> \<open>\<open>d.pop(key)\<close>, the value popped dropped: KeyError when the key is absent.\<close>
  "dict_pop key d =
     (if key \<in> set (map fst d) then Inr (filter (\<lambda>kv. fst kv \<noteq> key) d) else Inl KeyError)"

definition dict_setitem :: "string \<Rightarrow> 'v \<Rightarrow> (string \<times> 'v) list \<Rightarrow> (string \<times> 'v) list" where
  \<comment> \<open>\<open>d[key] = v\<close>: a key already there keeps its place, a new one goes last.\<close>
  "dict_setitem key v d =
     (if key \<in> set (map fst d)
      then map (\<lambda>kv. if fst kv = key then (key, v) else kv) d
      else d @ [(key, v)])"

definition dict_update :: "(string \<times> 'v) list \<Rightarrow> (string \<times> 'v) list \<Rightarrow> (string \<times> 'v) list" where
  \<comment> \<open>\<open>d.update(other)\<close>: the entries of \<open>other\<close> are stored one by one, in its order.\<close>
  "dict_update d other = fold (\<lambda>kv acc. dict_setitem (fst kv) (snd kv) acc) other d"

subsection \<open>Calling a layer\<close>

text \<open>
  The classes below define the method \<open>call\<close>; a layer is used by calling it,
  \<open>layer(inputs)\<close>, which runs \<open>Layer.__call__\<close> of the framework. \<open>Layer.__call__\<close> does
  not hand the caller's object to \<open>call\<close>: it rebuilds the input structure, a dict
  entry by entry, and runs \<open>call\<close> on the rebuilt one. So what \<open>call\<close> changes in place
  is that copy, and the caller's object is after the call what it was before.
\<close>

definition Layer_call :: "'t layer \<Rightarrow> 't layer" where
  "Layer_call call' inputs = bind (call' inputs) (\<lambda>(outputs, _). Inr (outputs, inputs))"

subsection \<open>FilterFeatures\<close>

fun pop_keys :: "string list \<Rightarrow> (string \<times> 'v) list \<Rightarrow> err + (string \<times> 'v) list" where
  \<comment> \<open>\<open>for key in outputs.keys(): inputs.pop(key)\<close>\<close>
  "pop_keys [] inputs = Inr inputs"
| "pop_keys (key # keys) inputs = bind (dict_pop key inputs) (pop_keys keys)"

definition FilterFeatures_call :: "string list \<Rightarrow> bool \<Rightarrow> 't layer" where
  \<comment> \<open>The method \<open>FilterFeatures.call\<close>; the second component is the dict that the
      method was given, after its pops.\<close>
  "FilterFeatures_call columns pop inputs =
     (case inputs of
        Dict d \<Rightarrow>
          (let outputs = filter (\<lambda>kv. fst kv \<in> set columns) d
           in if pop
              then bind (pop_keys (map fst outputs) d) (\<lambda>d'. Inr (Dict outputs, Dict d'))
              else Inr (Dict outputs, Dict d))
      | _ \<Rightarrow> Inl AssertionError)"

definition FilterFeatures :: "string list \<Rightarrow> bool \<Rightarrow> 't layer" where
  \<comment> \<open>The layer called: \<open>FilterFeatures(columns, pop=pop)(inputs)\<close>\<close>
  "FilterFeatures columns pop = Layer_call (FilterFeatures_call columns pop)"

subsection \<open>AsTabular\<close>

definition AsTabular_call :: "string \<Rightarrow> 't layer" where
  \<comment> \<open>\<open>return {self.output_name: inputs}\<close>\<close>
  "AsTabular_call output_name inputs = Inr (Dict [(output_name, inputs)], inputs)"

subsection \<open>MergeTabular\<close>

fun merge_loop :: "'t tabular_layer list \<Rightarrow> 't pyval \<Rightarrow> 't dict \<Rightarrow> err + ('t pyval \<times> 't pyval)" where
  \<comment> \<open>\<open>for layer in self.to_merge: outputs.update(layer(inputs))\<close>, then
      \<open>return outputs\<close>\<close>
  "merge_loop [] inputs outputs = Inr (Dict outputs, inputs)"
| "merge_loop (layer # rest) inputs outputs =
     bind (layer inputs) (\<lambda>(to_add, inputs'). merge_loop rest inputs' (dict_update outputs to_add))"

definition MergeTabular_call :: "'t tabular_layer list \<Rightarrow> 't layer" where
  "MergeTabular_call to_merge inputs =
     (case inputs of
        Dict d \<Rightarrow> merge_loop to_merge inputs []
      | _ \<Rightarrow> Inl AssertionError)"

text \<open>
  The claim's reading of MergeTabular, to compare \<open>merge_loop\<close> with: every block is
  called on the one input object, in argument order, and the bundles they return are
  collected; their union is taken afterwards.
\<close>

fun apply_each :: "'t tabular_layer list \<Rightarrow> 't pyval \<Rightarrow> err + ('t dict list \<times> 't pyval)" where
  "apply_each [] inputs = Inr ([], inputs)"
| "apply_each (layer # rest) inputs =
     bind (layer inputs) (\<lambda>(d, inputs').
     bind (apply_each rest inputs') (\<lambda>(ds, inputs'').
     Inr (d # ds, inputs'')))"

subsection \<open>The tensor framework, on shapes\<close>

text \<open>
  ConcatFeatures and StackFeatures hand their work to the tensor framework. The claims
  about them are claims about shapes, so a run-time tensor is represented by its shape,
  a list of dimensions, outermost first, and each framework operation by what its
  documentation says of shapes.
\<close>

type_synonym tensor = "nat list"

function nest_flatten :: "'t pyval \<Rightarrow> 't list" where
  \<comment> \<open>\<open>tf.nest.flatten\<close>: the leaves of a structure, a dict's values in the sorted
      order of its keys, a tuple's members in their order; a value that is no structure
      is a single leaf.\<close>
  "nest_flatten (Tensor t) = [t]"
| "nest_flatten (Dict d) = concat (map (\<lambda>kv. nest_flatten (snd kv)) (sort_key fst d))"
| "nest_flatten (Tuple vs) = concat (map nest_flatten vs)"
  by pat_completeness auto
termination
proof (relation "measure size")
  fix d :: "(string \<times> 't pyval) list" and kv
  assume "kv \<in> set (sort_key fst d)"
  then have "kv \<in> set d" by simp
  then have "size (snd kv) \<le> size_list (size_prod (\<lambda>_. 0) size) d"
    by (induction d) (auto simp: le_Suc_eq)
  then show "(snd kv, Dict d) \<in> measure size" by simp
next
  fix vs :: "'t pyval list" and v
  assume "v \<in> set vs"
  then have "size v \<le> size_list size vs"
    by (induction vs) auto
  then show "(v, Tuple vs) \<in> measure size" by simp
qed simp

definition keras_Flatten :: "tensor \<Rightarrow> err + tensor" where
  \<comment> \<open>\<open>tf.keras.layers.Flatten\<close>: keeps the batch dimension and folds the others into
      one; an input of shape (batch,) becomes (batch, 1); a scalar is refused. (How the
      framework reshapes a batch of size 0 is left aside: the properties below take the
      batch to be positive.)\<close>
  "keras_Flatten t =
     (case t of
        [] \<Rightarrow> Inl TFShapeError
      | [batch] \<Rightarrow> Inr [batch, 1]
      | batch # ds \<Rightarrow> Inr [batch, prod_list ds])"

definition tf_concat :: "tensor list \<Rightarrow> int \<Rightarrow> err + tensor" where
  \<comment> \<open>\<open>tf.concat(values, axis)\<close>: a single tensor is returned as it is; otherwise the
      tensors must have one rank, \<open>axis\<close> (a negative one counts from the end) must be a
      dimension of it, and the shapes must agree outside \<open>axis\<close>, where the sizes add up.\<close>
  "tf_concat values axis =
     (case values of
        [] \<Rightarrow> Inl TFShapeError
      | [t] \<Rightarrow> Inr t
      | t # rest \<Rightarrow>
          (let r = int (length t); a = (if axis < 0 then axis + r else axis)
           in if 0 \<le> a \<and> a < r \<and> list_all (\<lambda>u. u[nat a := 0] = t[nat a := 0]) rest
              then Inr (t[nat a := sum_list (map (\<lambda>u. u ! nat a) values)])
              else Inl TFShapeError))"

definition tf_stack :: "tensor list \<Rightarrow> int \<Rightarrow> err + tensor" where
  \<comment> \<open>\<open>tf.stack(values, axis)\<close>: N tensors of one shape of rank R give a tensor of rank
      R + 1, with the new dimension N at position \<open>axis\<close>; a negative axis wraps around,
      the valid range being [-(R+1), R+1), so that \<open>axis = -1\<close> puts N last. An empty list
      converts to an empty tensor when \<open>axis = 0\<close>; otherwise \<open>values[0]\<close> raises.\<close>
  "tf_stack values axis =
     (case values of
        [] \<Rightarrow> (if axis = 0 then Inr [0] else Inl IndexError)
      | t # rest \<Rightarrow>
          (let r = int (length t); a = (if axis < 0 then axis + (r + 1) else axis)
           in if 0 \<le> a \<and> a \<le> r \<and> list_all (\<lambda>u. u = t) rest
              then Inr (take (nat a) t @ [length values] @ drop (nat a) t)
              else Inl TFShapeError))"

subsection \<open>ConcatFeatures and StackFeatures\<close>

text \<open>
  \<open>tf.nest.map_structure(self.flatten, inputs)\<close> applies the Flatten layer to the leaves
  of \<open>inputs\<close> in the order of \<open>tf.nest.flatten\<close> and packs the results into the same
  structure, which \<open>tf.nest.flatten\<close> then lists in that order: the list of the
  flattened leaves, or the first error among them.
\<close>

definition ConcatFeatures_call :: "int \<Rightarrow> tensor layer" where
  \<comment> \<open>\<open>tf.concat(tf.nest.flatten(tf.nest.map_structure(self.flatten, inputs)), axis=self.axis)\<close>\<close>
  "ConcatFeatures_call axis inputs =
     bind (mapM keras_Flatten (nest_flatten inputs)) (\<lambda>flat.
     bind (tf_concat flat axis) (\<lambda>out.
     Inr (Tensor out, inputs)))"

definition StackFeatures_call :: "int \<Rightarrow> tensor layer" where
  \<comment> \<open>\<open>tf.stack(tf.nest.flatten(tf.nest.map_structure(self.flatten, inputs)), axis=self.axis)\<close>\<close>
  "StackFeatures_call axis inputs =
     bind (mapM keras_Flatten (nest_flatten inputs)) (\<lambda>flat.
     bind (tf_stack flat axis) (\<lambda>out.
     Inr (Tensor out, inputs)))"

subsection \<open>TabularLayer\<close>

datatype aggregator = ConcatFeatures int | StackFeatures int

fun aggregator_call :: "aggregator \<Rightarrow> tensor layer" where
  "aggregator_call (ConcatFeatures axis) = ConcatFeatures_call axis"
| "aggregator_call (StackFeatures axis) = StackFeatures_call axis"

definition set_aggregation :: "string option \<Rightarrow> aggregator option" where
  \<comment> \<open>Both aggregators are built with their default \<open>axis=-1\<close>.\<close>
  "set_aggregation aggregation =
     (if aggregation = Some ''concat'' then Some (ConcatFeatures (- 1))
      else if aggregation = Some ''stack'' then Some (StackFeatures (- 1))
      else None)"

text \<open>
  A tabular layer: the \<open>aggregation\<close> attribute that \<open>set_aggregation\<close> stored, and the
  \<open>call\<close> method of the subclass, which \<open>super().__call__\<close> runs.
\<close>

record TabularLayer =
  aggregation :: "aggregator option"
  call :: "tensor layer"

text \<open>A member of \<open>merge_with\<close>: a callable layer, or a bundle given as it is.\<close>

datatype merge_item = Callable "tensor tabular_layer" | Bundle "tensor dict"

fun merge_with_loop ::
  "merge_item list \<Rightarrow> tensor pyval \<Rightarrow> tensor pyval \<Rightarrow> err + (tensor pyval \<times> tensor pyval)" where
  \<comment> \<open>\<open>for layer_or_tensor in merge_with: ...; outputs.update(to_add)\<close>. Only a dict has
      \<open>update\<close>. Returns the outputs and the inputs after the loop.\<close>
  "merge_with_loop [] inputs outputs = Inr (outputs, inputs)"
| "merge_with_loop (layer_or_tensor # rest) inputs outputs =
     bind (case layer_or_tensor of
             Callable layer \<Rightarrow> layer inputs
           | Bundle b \<Rightarrow> Inr (b, inputs)) (\<lambda>(to_add, inputs').
     bind (case outputs of
             Dict out \<Rightarrow> Inr (Dict (dict_update out to_add))
           | _ \<Rightarrow> Inl AttributeError) (\<lambda>outputs'.
     merge_with_loop rest inputs' outputs'))"

definition TabularLayer_call ::
  "TabularLayer \<Rightarrow> tensor pyval \<Rightarrow> tensor layer option \<Rightarrow> tensor layer option \<Rightarrow> merge_item list
     \<Rightarrow> bool \<Rightarrow> bool \<Rightarrow> string list option \<Rightarrow> err + (tensor pyval \<times> tensor pyval)" where
  \<comment> \<open>\<open>TabularLayer.__call__(self, inputs, pre, post, merge_with, stack_outputs,
      concat_outputs, filter_columns)\<close>. An absent or empty \<open>merge_with\<close> is \<open>[]\<close>, a single
      member a one-element list. The source never reads \<open>post\<close>. The second component of
      the result is the caller's \<open>inputs\<close> after the call; a layer is taken to return an
      object of its own, not the very dict it was given. The filter, the layer's own
      \<open>call\<close> (through \<open>super().__call__\<close>) and the aggregator are layers called.\<close>
  "TabularLayer_call self inputs pre post merge_with stack_outputs concat_outputs filter_columns =
     (let post_op = aggregation self;
          post_op = (if concat_outputs then Some (ConcatFeatures (- 1)) else post_op);
          post_op = (if stack_outputs then Some (StackFeatures (- 1)) else post_op);
          pre = (case filter_columns of
                   Some (c # cs) \<Rightarrow> Some (FilterFeatures (c # cs) False)
                 | _ \<Rightarrow> pre)
      in bind (case pre of
                 Some layer \<Rightarrow> layer inputs
               | None \<Rightarrow> Inr (inputs, inputs)) (\<lambda>(inputs1, caller_inputs).
         bind (Layer_call (call self) inputs1) (\<lambda>(outputs, inputs2).
         bind (merge_with_loop merge_with inputs2 outputs) (\<lambda>(outputs, inputs3).
         bind (case post_op of
                 Some layer \<Rightarrow> Layer_call (aggregator_call layer) outputs
               | None \<Rightarrow> Inr (outputs, outputs)) (\<lambda>(outputs, _).
         Inr (outputs, case pre of Some _ \<Rightarrow> caller_inputs | None \<Rightarrow> inputs3))))))"

subsection \<open>Construction from a column group\<close>

text \<open>
  A \<open>ColumnGroup\<close> of the schema library, of which the layer reads the attribute
  \<open>columns\<close>. Its method \<open>get_tagged\<close> belongs to that library, and \<open>cls.from_features\<close> is
  dispatched on the subclass: both are parameters, and both may raise.
\<close>

record ColumnGroup =
  columns :: "string list"

definition from_column_group ::
  "(ColumnGroup \<Rightarrow> 'tag list \<Rightarrow> 'tag list option \<Rightarrow> err + ColumnGroup) \<Rightarrow> (string list \<Rightarrow> err + 'b)
     \<Rightarrow> ColumnGroup \<Rightarrow> 'tag list option \<Rightarrow> 'tag list option \<Rightarrow> err + 'b option" where
  \<comment> \<open>\<open>if tags:\<close> holds for a non-empty list of tags; \<open>if not column_group.columns\<close>
      for an empty list of columns.\<close>
  "from_column_group get_tagged from_features column_group tags tags_to_filter =
     bind (case tags of
             Some (t # ts) \<Rightarrow> get_tagged column_group (t # ts) tags_to_filter
           | _ \<Rightarrow> Inr column_group) (\<lambda>column_group.
     if columns column_group = [] then Inr None
     else bind (from_features (columns column_group)) (\<lambda>block. Inr (Some block)))"

subsection \<open>The composition operator\<close>

text \<open>
  \<open>__rrshift__\<close> hands \<open>other >> self\<close> to \<open>right_shift_layer(self, other)\<close>, a function of
  \<open>merlin_models.tf.blocks.base\<close>, which is not among the sources, as the sequential
  block it builds is not. Both are modelled from the spec: \<open>A >> B\<close> means "apply A, then
  feed its output into B", and a chain is one flat ordered sequence of blocks applied in
  turn (a Sequential block), not nested pairwise wrappers.
\<close>

datatype 't block = Layer "'t layer" | SequentialBlock "'t layer list"

fun layers_of :: "'t block \<Rightarrow> 't layer list" where
  \<comment> \<open>Modelled from the spec: the flat sequence a block stands for.\<close>
  "layers_of (Layer f) = [f]"
| "layers_of (SequentialBlock fs) = fs"

fun sequential_call :: "'t layer list \<Rightarrow> 't layer" where
  \<comment> \<open>Modelled from the spec: the call of a Sequential block, missing from the sources;
      its blocks are applied in turn, each to the result of the one before.\<close>
  "sequential_call [] inputs = Inr (inputs, inputs)"
| "sequential_call (f # fs) inputs =
     bind (f inputs) (\<lambda>(outputs, inputs').
     bind (sequential_call fs outputs) (\<lambda>(result, _).
     Inr (result, inputs')))"

fun block_call :: "'t block \<Rightarrow> 't layer" where
  "block_call (Layer f) = f"
| "block_call (SequentialBlock fs) = sequential_call fs"

definition right_shift_layer :: "'t block \<Rightarrow> 't block \<Rightarrow> 't block" where
  \<comment> \<open>Modelled from the spec: \<open>right_shift_layer\<close> is missing from the sources. The result
      is the flat sequence of the left operand's blocks followed by the right one's;
      \<open>self\<close> is the right operand and \<open>other\<close> the left one.\<close>
  "right_shift_layer self other = SequentialBlock (layers_of other @ layers_of self)"

section \<open>Properties\<close>

subsection \<open>Sequencing and indexing\<close>

lemma py_index_Nil [simp]: "py_index [] i = Inl IndexError"
  by (simp add: py_index_def)

lemma py_index_Cons_0 [simp]: "py_index (x # xs) 0 = Inr x"
  by (simp add: py_index_def)

lemma bind_Inl [simp]: "bind (Inl e) f = Inl e"
  by (simp add: bind_def)

lemma bind_Inr [simp]: "bind (Inr x) f = f x"
  by (simp add: bind_def)

subsection \<open>FilterFeatures: selection and pop\<close>





subsection \<open>MergeTabular: union with last write wins\<close>

lemma map_of_replace_other:
  "x \<noteq> k \<Longrightarrow> map_of (map (\<lambda>kv. if fst kv = k then (k, v) else kv) d) x = map_of d x"
  by (induction d) auto

lemma map_of_replace_same:
  "k \<in> set (map fst d) \<Longrightarrow> map_of (map (\<lambda>kv. if fst kv = k then (k, v) else kv) d) k = Some v"
  by (induction d) auto

lemma map_of_dict_setitem: "map_of (dict_setitem k v d) = (map_of d)(k \<mapsto> v)"
proof (rule ext)
  fix x
  show "map_of (dict_setitem k v d) x = ((map_of d)(k \<mapsto> v)) x"
  proof (cases "k \<in> set (map fst d)")
    case True
    then show ?thesis
      by (cases "x = k") (simp_all add: dict_setitem_def map_of_replace_other map_of_replace_same)
  next
    case False
    then have "map_of d k = None"
      by (simp add: map_of_eq_None_iff)
    with False show ?thesis
      by (simp add: dict_setitem_def map_add_def split: option.splits)
  qed
qed

lemma keys_dict_setitem:
  "map fst (dict_setitem k v d) = (if k \<in> set (map fst d) then map fst d else map fst d @ [k])"
proof -
  have "map fst (map (\<lambda>kv. if fst kv = k then (k, v) else kv) d) = map fst d"
    by (induction d) auto
  then show ?thesis by (simp add: dict_setitem_def)
qed

lemma distinct_dict_setitem:
  "distinct (map fst d) \<Longrightarrow> distinct (map fst (dict_setitem k v d))"
  by (simp add: keys_dict_setitem)

lemma dict_update_Nil [simp]: "dict_update d [] = d"
  by (simp add: dict_update_def)

lemma dict_update_Cons [simp]:
  "dict_update d (kv # other) = dict_update (dict_setitem (fst kv) (snd kv) d) other"
  by (simp add: dict_update_def)

lemma distinct_dict_update:
  "distinct (map fst d) \<Longrightarrow> distinct (map fst (dict_update d other))"
  by (induction other arbitrary: d) (simp_all add: distinct_dict_setitem)

lemma map_of_dict_update:
  "distinct (map fst other) \<Longrightarrow> map_of (dict_update d other) = map_of d ++ map_of other"
proof (induction other arbitrary: d)
  case Nil
  then show ?case by simp
next
  case (Cons kv other)
  obtain k v where kv: "kv = (k, v)" by (cases kv)
  from Cons.prems kv have fresh: "map_of other k = None"
    by (simp add: map_of_eq_None_iff)
  from Cons.prems have "distinct (map fst other)" by simp
  then have "map_of (dict_update (dict_setitem k v d) other)
               = map_of (dict_setitem k v d) ++ map_of other"
    by (rule Cons.IH)
  then have "map_of (dict_update d (kv # other)) = (map_of d)(k \<mapsto> v) ++ map_of other"
    by (simp only: dict_update_Cons kv fst_conv snd_conv map_of_dict_setitem)
  also have "\<dots> = map_of d ++ map_of (kv # other)"
  proof (rule ext)
    fix x show "((map_of d)(k \<mapsto> v) ++ map_of other) x = (map_of d ++ map_of (kv # other)) x"
      using fresh by (cases "x = k") (simp_all add: kv map_add_def split: option.splits)
  qed
  finally show ?case .
qed

lemma map_of_foldl_dict_update:
  "list_all (\<lambda>d. distinct (map fst d)) ds \<Longrightarrow>
   map_of (foldl dict_update acc ds) = foldl (++) (map_of acc) (map map_of ds)"
  by (induction ds arbitrary: acc) (simp_all add: map_of_dict_update)

lemma distinct_foldl_dict_update:
  "distinct (map fst acc) \<Longrightarrow> distinct (map fst (foldl dict_update acc ds))"
  by (induction ds arbitrary: acc) (simp_all add: distinct_dict_update)

lemma merge_loop_apply_each:
  "merge_loop blocks inputs acc =
     bind (apply_each blocks inputs) (\<lambda>(ds, inputs'). Inr (Dict (foldl dict_update acc ds), inputs'))"
proof (induction blocks arbitrary: inputs acc)
  case Nil
  show ?case by simp
next
  case (Cons layer rest)
  show ?case
  proof (cases "layer inputs")
    case (Inl e)
    then show ?thesis by simp
  next
    case (Inr r)
    obtain d inputs' where r: "r = (d, inputs')" by (cases r)
    show ?thesis
      by (cases "apply_each rest inputs'") (auto simp: Inr r Cons.IH)
  qed
qed

text \<open>
  C2. MergeTabular calls each block on the input dict, in argument order, and returns
  the union of the bundles they return: its result is \<open>dict.update\<close> folded, from the
  empty dict, over the bundles collected by calling every block in turn. That union is
  key by key, a later bundle's entry replacing an earlier one's under the same key
  (the map of the result is \<open>m1 ++ ... ++ mn\<close>, where \<open>++\<close> prefers its right argument),
  and its keys are unique. With block A giving \<open>{x: t1}\<close> and block B giving
  \<open>{x: t2, y: t3}\<close> on \<open>B\<close>, both leaving \<open>B\<close> as it is, Merge(A, B) returns
  \<open>{x: t2, y: t3}\<close> and Merge(B, A) returns \<open>{x: t1, y: t3}\<close>.
\<close>

theorem merge_last_write_wins:
  "MergeTabular_call blocks (Dict B)
     = bind (apply_each blocks (Dict B))
         (\<lambda>(ds, inputs'). Inr (Dict (foldl dict_update [] ds), inputs'))
   \<and> (list_all (\<lambda>d. distinct (map fst d)) ds \<longrightarrow>
         map_of (foldl dict_update [] ds) = foldl (++) Map.empty (map map_of ds)
       \<and> distinct (map fst (foldl dict_update [] ds)))
   \<and> (blockA (Dict B) = Inr ([(''x'', t1)], Dict B)
        \<and> blockB (Dict B) = Inr ([(''x'', t2), (''y'', t3)], Dict B) \<longrightarrow>
         MergeTabular_call [blockA, blockB] (Dict B) = Inr (Dict [(''x'', t2), (''y'', t3)], Dict B)
       \<and> MergeTabular_call [blockB, blockA] (Dict B) = Inr (Dict [(''x'', t1), (''y'', t3)], Dict B))"
proof (intro conjI impI)
  show "MergeTabular_call blocks (Dict B)
     = bind (apply_each blocks (Dict B))
         (\<lambda>(ds, inputs'). Inr (Dict (foldl dict_update [] ds), inputs'))"
    by (simp add: MergeTabular_call_def merge_loop_apply_each)
next
  assume "list_all (\<lambda>d. distinct (map fst d)) ds"
  then show "map_of (foldl dict_update [] ds) = foldl (++) Map.empty (map map_of ds)"
    using map_of_foldl_dict_update [of ds "[]"] by simp
next
  show "distinct (map fst (foldl dict_update [] ds))"
    by (rule distinct_foldl_dict_update) simp
next
  assume ab: "blockA (Dict B) = Inr ([(''x'', t1)], Dict B)
        \<and> blockB (Dict B) = Inr ([(''x'', t2), (''y'', t3)], Dict B)"
  then show "MergeTabular_call [blockA, blockB] (Dict B)
               = Inr (Dict [(''x'', t2), (''y'', t3)], Dict B)"
    by (simp add: MergeTabular_call_def dict_setitem_def)
  from ab show "MergeTabular_call [blockB, blockA] (Dict B)
               = Inr (Dict [(''x'', t1), (''y'', t3)], Dict B)"
    by (simp add: MergeTabular_call_def dict_setitem_def)
qed

theorem merge_last_write_wins_witness:
  "MergeTabular_call [\<lambda>inputs. Inr ([(''x'', Tensor (1::nat))], inputs),
                      \<lambda>inputs. Inr ([(''x'', Tensor 2), (''y'', Tensor 3)], inputs)]
       (Dict [(''u'', Tensor 0)])
     = Inr (Dict [(''x'', Tensor 2), (''y'', Tensor 3)], Dict [(''u'', Tensor 0)])
   \<and> MergeTabular_call [\<lambda>inputs. Inr ([(''x'', Tensor 2), (''y'', Tensor 3)], inputs),
                        \<lambda>inputs. Inr ([(''x'', Tensor (1::nat))], inputs)]
       (Dict [(''u'', Tensor 0)])
     = Inr (Dict [(''x'', Tensor 1), (''y'', Tensor 3)], Dict [(''u'', Tensor 0)])
   \<and> map_of (foldl dict_update [] [[(''x'', Tensor (1::nat))], [(''x'', Tensor 2), (''y'', Tensor 3)]]) ''x''
     = Some (Tensor 2)"
  using merge_last_write_wins [where B = "[(''u'', Tensor 0)]" and blocks = "[]"
      and blockA = "\<lambda>inputs. Inr ([(''x'', Tensor (1::nat))], inputs)"
      and blockB = "\<lambda>inputs. Inr ([(''x'', Tensor 2), (''y'', Tensor 3)], inputs)"
      and ds = "[[(''x'', Tensor (1::nat))], [(''x'', Tensor 2), (''y'', Tensor 3)]]"
      and ?t1.0 = "Tensor 1" and ?t2.0 = "Tensor 2" and ?t3.0 = "Tensor 3"]
  by (simp add: dict_setitem_def)

subsection \<open>TabularLayer: which aggregator runs\<close>

lemma bind_assoc: "bind (bind m f) g = bind m (\<lambda>x. bind (f x) g)"
  by (cases m) simp_all

lemma bind_cong_Inr: "(\<And>x. m = Inr x \<Longrightarrow> f x = g x) \<Longrightarrow> bind m f = bind m g"
  by (cases m) simp_all

lemma Layer_call_result:
  "bind (Layer_call f x) (\<lambda>(y, _). g y) = bind (f x) (\<lambda>(y, _). g y)"
  by (cases "f x") (auto simp: Layer_call_def)

text \<open>
  C3 (as amended). A call of a tabular layer is the call without any aggregation,
  followed by the aggregator that the flags select: StackFeatures when \<open>stack_outputs\<close>
  is true, whatever \<open>concat_outputs\<close> is; otherwise ConcatFeatures when \<open>concat_outputs\<close>
  is true; otherwise the aggregation set at construction; otherwise none.
\<close>

theorem post_op_precedence:
  "TabularLayer_call self inputs pre post merge_with stack_outputs concat_outputs filter_columns =
     bind (TabularLayer_call (self\<lparr>aggregation := None\<rparr>) inputs pre post merge_with
             False False filter_columns) (\<lambda>(outputs, inputs').
     case (if stack_outputs then Some (StackFeatures (- 1))
           else if concat_outputs then Some (ConcatFeatures (- 1))
           else aggregation self) of
       None \<Rightarrow> Inr (outputs, inputs')
     | Some layer \<Rightarrow> bind (aggregator_call layer outputs) (\<lambda>(result, _). Inr (result, inputs')))"
  unfolding TabularLayer_call_def Let_def
  by (auto simp: bind_assoc Layer_call_result split: prod.splits option.splits list.splits
      intro!: bind_cong_Inr)

text \<open>
  The claim as stated fails: with both flags true, the two entries of shape (2, 3) come
  back stacked, as a tensor of shape (2, 3, 2), not concatenated, which would be (2, 6).
\<close>

theorem post_op_precedence_counterexample:
  "TabularLayer_call \<lparr>aggregation = None, call = (\<lambda>x. Inr (x, x))\<rparr>
       (Dict [(''a'', Tensor [2, 3]), (''b'', Tensor [2, 3])]) None None [] True True None
     = Inr (Tensor [2, 3, 2], Dict [(''a'', Tensor [2, 3]), (''b'', Tensor [2, 3])])
   \<and> ConcatFeatures_call (- 1) (Dict [(''a'', Tensor [2, 3]), (''b'', Tensor [2, 3])])
     = Inr (Tensor [2, 6], Dict [(''a'', Tensor [2, 3]), (''b'', Tensor [2, 3])])
   \<and> StackFeatures_call (- 1) (Dict [(''a'', Tensor [2, 3]), (''b'', Tensor [2, 3])])
     = Inr (Tensor [2, 3, 2], Dict [(''a'', Tensor [2, 3]), (''b'', Tensor [2, 3])])"
  by (simp add: TabularLayer_call_def Layer_call_def StackFeatures_call_def ConcatFeatures_call_def
      keras_Flatten_def tf_stack_def tf_concat_def)

subsection \<open>StackFeatures: the shape returned and the shape inferred\<close>

lemma nest_flatten_tensors:
  "list_all (\<lambda>kv. snd kv = Tensor t) xs \<Longrightarrow>
   concat (map (\<lambda>kv. nest_flatten (snd kv)) xs) = replicate (length xs) t"
  by (induction xs) simp_all

lemma nest_flatten_uniform_dict:
  "nest_flatten (Dict (map (\<lambda>k. (k, Tensor t)) keys)) = replicate (length keys) t"
proof -
  let ?d = "map (\<lambda>k. (k, Tensor t)) keys"
  have "list_all (\<lambda>kv. snd kv = Tensor t) (sort_key fst ?d)"
    by (auto simp: list_all_iff)
  then have "concat (map (\<lambda>kv. nest_flatten (snd kv)) (sort_key fst ?d))
               = replicate (length (sort_key fst ?d)) t"
    by (rule nest_flatten_tensors)
  then show ?thesis by simp
qed

lemma mapM_replicate:
  "f x = Inr y \<Longrightarrow> mapM f (replicate n x) = Inr (replicate n y)"
  by (induction n) simp_all

lemma tf_stack_replicate_last:
  "0 < n \<Longrightarrow> tf_stack (replicate n [batch, w]) (- 1) = Inr [batch, w, n]"
  by (cases n) (simp_all add: tf_stack_def list_all_iff)

text \<open>
  C4. For a bundle of n entries (n at least 1), each a tensor of shape (batch, w) with a
  positive batch, StackFeatures with its default \<open>axis=-1\<close> returns a tensor of shape
  (batch, w, n), the new dimension last, while its \<open>compute_output_shape\<close> reports
  (batch, n, w) for the shapes of the same bundle. Called on two entries of different
  widths, with any axis, it raises the framework's shape error.
\<close>

theorem stack_call_against_inferred_shape:
  assumes "keys \<noteq> []" and "0 < batch"
  shows "StackFeatures_call (- 1) (Dict (map (\<lambda>k. (k, Tensor [batch, w])) keys))
           = Inr (Tensor [batch, w, length keys], Dict (map (\<lambda>k. (k, Tensor [batch, w])) keys))
       \<and> StackFeatures_compute_output_shape (map (\<lambda>k. (k, TensorShape [Some batch, Some w])) keys)
           = Inr (Dim (Some batch), length keys, Dim (Some w))
       \<and> (w \<noteq> w' \<longrightarrow>
            StackFeatures_call axis (Dict [(k1, Tensor [batch, w]), (k2, Tensor [batch, w'])])
              = Inl TFShapeError)"
proof -
  have flat: "keras_Flatten [batch, w] = Inr [batch, w]"
    by (simp add: keras_Flatten_def)
  from assms(1) have n: "0 < length keys" by simp
  have a: "StackFeatures_call (- 1) (Dict (map (\<lambda>k. (k, Tensor [batch, w])) keys))
           = Inr (Tensor [batch, w, length keys], Dict (map (\<lambda>k. (k, Tensor [batch, w])) keys))"
    by (simp add: StackFeatures_call_def nest_flatten_uniform_dict
        mapM_replicate [of keras_Flatten, OF flat] tf_stack_replicate_last [OF n]
        del: nest_flatten.simps)
  from assms(1) obtain k ks where keys: "keys = k # ks" by (cases keys) auto
  have b: "StackFeatures_compute_output_shape (map (\<lambda>k. (k, TensorShape [Some batch, Some w])) keys)
           = Inr (Dim (Some batch), length keys, Dim (Some w))"
    by (simp add: keys StackFeatures_compute_output_shape_def
        calculate_batch_size_from_input_shapes_def py_index_def)
  have c: "StackFeatures_call axis (Dict [(k1, Tensor [batch, w]), (k2, Tensor [batch, w'])])
              = Inl TFShapeError" if "w \<noteq> w'"
    using that by (simp add: StackFeatures_call_def keras_Flatten_def tf_stack_def Let_def)
  from a b c show ?thesis by blast
qed

theorem stack_call_against_inferred_shape_witness:
  "StackFeatures_call (- 1) (Dict [(''a'', Tensor [4, 8]), (''b'', Tensor [4, 8])])
     = Inr (Tensor [4, 8, 2], Dict [(''a'', Tensor [4, 8]), (''b'', Tensor [4, 8])])
   \<and> StackFeatures_compute_output_shape
        [(''a'', TensorShape [Some 4, Some 8]), (''b'', TensorShape [Some 4, Some 8])]
     = Inr (Dim (Some 4), 2, Dim (Some 8))
   \<and> StackFeatures_call (- 1) (Dict [(''a'', Tensor [4, 8]), (''b'', Tensor [4, 5])])
     = Inl TFShapeError"
  using stack_call_against_inferred_shape [of "[''a'', ''b'']" 4 8 5 "- 1" "''a''" "''b''"]
  by simp

subsection \<open>Aggregators and MergeTabular on a single tensor\<close>

text \<open>
  C5 (as amended). MergeTabular refuses every input that is not a dict with an
  AssertionError. ConcatFeatures and StackFeatures do not check the kind of their input:
  a single tensor of shape (batch, d1, ..., dk), its batch positive, is one leaf to them,
  and they return it flattened, of shape (batch, d1 * ... * dk), StackFeatures with its
  default \<open>axis=-1\<close> adding a last dimension 1; (batch,) flattens to (batch, 1).
\<close>

theorem aggregators_accept_single_tensor:
  "MergeTabular_call to_merge (Tensor T) = Inl AssertionError
   \<and> MergeTabular_call to_merge (Tuple vs) = Inl AssertionError
   \<and> (0 < batch \<longrightarrow>
        ConcatFeatures_call axis (Tensor (batch # ds))
          = Inr (Tensor [batch, if ds = [] then 1 else prod_list ds], Tensor (batch # ds))
      \<and> StackFeatures_call (- 1) (Tensor (batch # ds))
          = Inr (Tensor [batch, if ds = [] then 1 else prod_list ds, 1], Tensor (batch # ds)))"
proof -
  have flat: "keras_Flatten (batch # ds) = Inr [batch, if ds = [] then 1 else prod_list ds]"
    by (cases ds) (simp_all add: keras_Flatten_def)
  have "ConcatFeatures_call axis (Tensor (batch # ds))
       = Inr (Tensor [batch, if ds = [] then 1 else prod_list ds], Tensor (batch # ds))"
    by (simp add: ConcatFeatures_call_def flat tf_concat_def)
  moreover have "StackFeatures_call (- 1) (Tensor (batch # ds))
       = Inr (Tensor [batch, if ds = [] then 1 else prod_list ds, 1], Tensor (batch # ds))"
    by (simp add: StackFeatures_call_def flat tf_stack_def)
  ultimately show ?thesis
    by (simp add: MergeTabular_call_def)
qed

theorem aggregators_accept_single_tensor_witness:
  "MergeTabular_call [] (Tensor [4, 2, 3 :: nat]) = Inl AssertionError
   \<and> ConcatFeatures_call (- 1) (Tensor [4, 2, 3]) = Inr (Tensor [4, 6], Tensor [4, 2, 3])
   \<and> StackFeatures_call (- 1) (Tensor [4, 2, 3]) = Inr (Tensor [4, 6, 1], Tensor [4, 2, 3])"
  using aggregators_accept_single_tensor [where to_merge = "[]" and T = "[4, 2, 3 :: nat]"
      and vs = "[]" and batch = 4 and axis = "- 1" and ds = "[2, 3]"]
  by simp

text \<open>
  The claim as stated fails: called with a single tensor of shape (4, 8), ConcatFeatures
  and StackFeatures return a tensor.
\<close>

theorem aggregators_single_tensor_counterexample:
  "ConcatFeatures_call (- 1) (Tensor [4, 8]) = Inr (Tensor [4, 8], Tensor [4, 8])
   \<and> StackFeatures_call (- 1) (Tensor [4, 8]) = Inr (Tensor [4, 8, 1], Tensor [4, 8])"
  by (simp add: ConcatFeatures_call_def StackFeatures_call_def keras_Flatten_def
      tf_concat_def tf_stack_def)

subsection \<open>AsTabular on tensors and bundles\<close>

text \<open>
  C6 (as amended). AsTabular wraps whatever it is called with under its output name and
  never fails: a single tensor \<open>T\<close> gives \<open>{s: T}\<close>, and a bundle \<open>B\<close> gives the
  one-entry bundle \<open>{s: B}\<close>, with no check of the kind of input.
\<close>

theorem as_tabular_wraps_any_input:
  "AsTabular_call s (Tensor T) = Inr (Dict [(s, Tensor T)], Tensor T)
   \<and> AsTabular_call s (Dict B) = Inr (Dict [(s, Dict B)], Dict B)
   \<and> AsTabular_call s x \<noteq> Inl e
   \<and> AsTabular_call s x = Inr (Dict [(s, x)], x)"
  by (simp add: AsTabular_call_def)

text \<open>The claim as stated fails: called with a bundle, AsTabular returns a result.\<close>

theorem as_tabular_bundle_counterexample:
  "AsTabular_call ''user'' (Dict [(''age'', Tensor (1::nat)), (''id'', Tensor 2)])
     = Inr (Dict [(''user'', Dict [(''age'', Tensor 1), (''id'', Tensor 2)])],
            Dict [(''age'', Tensor 1), (''id'', Tensor 2)])"
  by (simp add: AsTabular_call_def)

subsection \<open>ConcatFeatures: the shape inferred\<close>

lemma py_sum_from_dims:
  "py_sum_from (IntSum acc) (map (\<lambda>w. Dim (Some w)) ws) = Inr (IntSum (acc + sum_list ws))"
  by (induction ws arbitrary: acc) (simp_all add: add.assoc)

lemma mapM_widths:
  "mapM (\<lambda>i. getitem i 1) (map snd (map (\<lambda>(k, w). (k, TensorShape [batch, Some w])) kws))
     = Inr (map (\<lambda>w. Dim (Some w)) (map snd kws))"
  by (induction kws) (auto simp: py_index_def)

lemma concat_inferred_shape_rank2:
  assumes "kws \<noteq> []"
  shows "ConcatFeatures_compute_output_shape (map (\<lambda>(k, w). (k, TensorShape [batch, Some w])) kws)
           = Inr (Dim batch, IntSum (sum_list (map snd kws)))"
proof -
  from assms obtain k w rest where kws: "kws = (k, w) # rest"
    by (cases kws) auto
  have "calculate_batch_size_from_input_shapes (map (\<lambda>(k, w). (k, TensorShape [batch, Some w])) kws)
          = Inr (Dim batch)"
    by (simp add: kws calculate_batch_size_from_input_shapes_def py_index_def)
  then show ?thesis
    by (simp add: ConcatFeatures_compute_output_shape_def mapM_widths py_sum_def py_sum_from_dims
        del: map_map)
qed

text \<open>
  With a ragged entry after a leaf entry the sum is no number at all: the int 4 plus the
  member shape (3, 1) is the shape (4, 3, 1).
\<close>

lemma concat_inferred_shape_ragged_member:
  "ConcatFeatures_compute_output_shape
       [(''a'', TensorShape [Some 5, Some 4]),
        (''r'', ShapeTuple [TensorShape [Some 3, Some 1], TensorShape [Some 3, Some 1]])]
     = Inr (Dim (Some 5), ShapeSum [Some 4, Some 3, Some 1])"
  by (simp add: ConcatFeatures_compute_output_shape_def calculate_batch_size_from_input_shapes_def
      py_index_def py_sum_def)

text \<open>
  C7. For the bundle \<open>{a: (4, 2, 3), b: (4, 6)}\<close>, whose entries both flatten to width 6,
  ConcatFeatures returns a tensor of shape (4, 12), while its \<open>compute_output_shape\<close>
  reports (4, 8): it adds up the second dimensions, not the flattened widths. On
  \<open>{a: (4, 4), b: (4, 6)}\<close> both give (4, 10).
\<close>

theorem concat_inferred_shape_not_flattened:
  "ConcatFeatures_compute_output_shape
       [(''a'', TensorShape [Some 4, Some 2, Some 3]), (''b'', TensorShape [Some 4, Some 6])]
     = Inr (Dim (Some 4), IntSum 8)
   \<and> ConcatFeatures_call (- 1) (Dict [(''a'', Tensor [4, 2, 3]), (''b'', Tensor [4, 6])])
     = Inr (Tensor [4, 12], Dict [(''a'', Tensor [4, 2, 3]), (''b'', Tensor [4, 6])])
   \<and> ConcatFeatures_compute_output_shape
       [(''a'', TensorShape [Some 4, Some 4]), (''b'', TensorShape [Some 4, Some 6])]
     = Inr (Dim (Some 4), IntSum 10)
   \<and> ConcatFeatures_call (- 1) (Dict [(''a'', Tensor [4, 4]), (''b'', Tensor [4, 6])])
     = Inr (Tensor [4, 10], Dict [(''a'', Tensor [4, 4]), (''b'', Tensor [4, 6])])"
  by (simp add: ConcatFeatures_compute_output_shape_def calculate_batch_size_from_input_shapes_def
      py_index_def py_sum_def ConcatFeatures_call_def keras_Flatten_def tf_concat_def)

subsection \<open>Composition\<close>

lemma sequential_call_append:
  "map_sum id fst (sequential_call (fs @ gs) x)
     = bind (sequential_call fs x) (\<lambda>(y, _). map_sum id fst (sequential_call gs y))"
proof (induction fs arbitrary: x)
  case Nil
  show ?case by simp
next
  case (Cons f fs)
  show ?case
  proof (cases "f x")
    case (Inl e)
    then show ?thesis by simp
  next
    case (Inr r)
    obtain y x' where r: "r = (y, x')" by (cases r)
    have "map_sum id fst (sequential_call ((f # fs) @ gs) x)
            = map_sum id fst (sequential_call (fs @ gs) y)"
      by (cases "sequential_call (fs @ gs) y") (auto simp: Inr r)
    also have "\<dots> = bind (sequential_call fs y) (\<lambda>(z, _). map_sum id fst (sequential_call gs z))"
      by (rule Cons.IH)
    also have "\<dots> = bind (sequential_call (f # fs) x) (\<lambda>(z, _). map_sum id fst (sequential_call gs z))"
      by (cases "sequential_call fs y") (auto simp: Inr r)
    finally show ?thesis .
  qed
qed

text \<open>
  C8. The block \<open>A >> B\<close> returns, on every input \<open>x\<close>, what B returns on the result of
  A on \<open>x\<close>; an error of A, or of B on that result, is the error of the composed block.
\<close>

theorem right_shift_is_composition:
  "map_sum id fst (block_call (right_shift_layer B A) x)
     = bind (block_call A x) (\<lambda>(y, _). map_sum id fst (block_call B y))"
proof -
  have single: "map_sum id fst (sequential_call [f] z) = map_sum id fst (f z)" for f :: "'a layer" and z
    by (cases "f z") auto
  have A: "bind (sequential_call (layers_of A) x) (\<lambda>(y, _). g y) = bind (block_call A x) (\<lambda>(y, _). g y)"
    for g :: "'a pyval \<Rightarrow> err + 'a pyval"
    by (cases A; cases "block_call A x") auto
  have B: "map_sum id fst (sequential_call (layers_of B) y) = map_sum id fst (block_call B y)" for y
  proof (cases B)
    case (Layer f)
    then show ?thesis using single [of f y] by simp
  next
    case (SequentialBlock fs)
    then show ?thesis by simp
  qed
  show ?thesis
    by (simp add: right_shift_layer_def sequential_call_append A B)
qed

theorem right_shift_is_composition_witness:
  "map_sum id fst (block_call
       (right_shift_layer (Layer (Layer_call (AsTabular_call ''item'')))
                          (Layer (FilterFeatures [''item_id''] False)))
       (Dict [(''item_id'', Tensor (1::nat)), (''item_category'', Tensor 2)]))
     = Inr (Dict [(''item'', Dict [(''item_id'', Tensor 1)])])"
  using right_shift_is_composition [of "Layer (Layer_call (AsTabular_call ''item''))"
      "Layer (FilterFeatures [''item_id''] False)"
      "Dict [(''item_id'', Tensor (1::nat)), (''item_category'', Tensor 2)]"]
  by (simp add: FilterFeatures_def FilterFeatures_call_def AsTabular_call_def Layer_call_def)

subsection \<open>Construction from an empty selection\<close>

text \<open>
  C9. When the selected column group has no columns, \<open>from_column_group\<close> returns None and
  raises nothing, and \<open>from_features\<close> is not called; when it has columns, the result is
  the block that \<open>from_features\<close> builds from them. The selected group is the given one
  when no tags are given, and what \<open>get_tagged\<close> returns otherwise.
\<close>

theorem from_column_group_empty_is_none:
  assumes "(case tags of Some (t # ts) \<Rightarrow> get_tagged column_group (t # ts) tags_to_filter
            | _ \<Rightarrow> Inr column_group) = Inr selected"
  shows "(columns selected = [] \<longrightarrow>
            from_column_group get_tagged from_features column_group tags tags_to_filter = Inr None)
       \<and> (columns selected \<noteq> [] \<longrightarrow> from_features (columns selected) = Inr block \<longrightarrow>
            from_column_group get_tagged from_features column_group tags tags_to_filter
              = Inr (Some block))"
  using assms by (simp add: from_column_group_def)

theorem from_column_group_empty_is_none_witness:
  "from_column_group (\<lambda>g ts f. Inr (g\<lparr>columns := filter (\<lambda>c. c \<in> set ts) (columns g)\<rparr>))
       (\<lambda>cs. Inr (length cs)) \<lparr>columns = [''user_id'', ''item_id'']\<rparr> (Some [''age'']) None = Inr None
   \<and> from_column_group (\<lambda>g ts f. Inr (g\<lparr>columns := filter (\<lambda>c. c \<in> set ts) (columns g)\<rparr>))
       (\<lambda>cs. Inr (length cs)) \<lparr>columns = [''user_id'', ''item_id'']\<rparr> (Some [''item_id'']) None
       = Inr (Some 1)"
  using from_column_group_empty_is_none [where tags = "Some [''age'']"
      and get_tagged = "\<lambda>g ts f. Inr (g\<lparr>columns := filter (\<lambda>c. c \<in> set ts) (columns g)\<rparr>)"
      and column_group = "\<lparr>columns = [''user_id'', ''item_id'']\<rparr>" and tags_to_filter = None
      and selected = "\<lparr>columns = []\<rparr>" and from_features = "\<lambda>cs. Inr (length cs)" and block = 0]
    from_column_group_empty_is_none [where tags = "Some [''item_id'']"
      and get_tagged = "\<lambda>g ts f. Inr (g\<lparr>columns := filter (\<lambda>c. c \<in> set ts) (columns g)\<rparr>)"
      and column_group = "\<lparr>columns = [''user_id'', ''item_id'']\<rparr>" and tags_to_filter = None
      and selected = "\<lparr>columns = [''item_id'']\<rparr>" and from_features = "\<lambda>cs. Inr (length cs)"
      and block = 1]
  by simp

subsection \<open>Batch-size discovery\<close>

lemma filter_leaf_empty:
  "filter (\<lambda>i. \<not> is_tuple i) xs = [] \<longleftrightarrow> (\<forall>i \<in> set xs. is_tuple i)"
  by (induction xs) auto

text \<open>
  C10. Batch-size discovery is partial. (1) When every value of the shape bundle is a
  tuple, it raises IndexError. (2) When the first value that is not a tuple is a tensor
  shape with a leading dimension \<open>d\<close>, whatever tuples come before it and whatever
  follows it, it returns \<open>d\<close>. (3) Whenever it returns a value, the bundle has a value
  that is not a tuple. (4) A first value that is not a tuple and has rank 0 has no
  leading dimension: IndexError again.
\<close>

theorem batch_size_discovery_partial:
  "((\<forall>i \<in> set (map snd S). is_tuple i) \<longrightarrow>
      calculate_batch_size_from_input_shapes S = Inl IndexError)
   \<and> ((\<forall>i \<in> set (map snd pre). is_tuple i) \<longrightarrow>
      calculate_batch_size_from_input_shapes (pre @ (k, TensorShape (d # ds)) # post) = Inr (Dim d))
   \<and> (calculate_batch_size_from_input_shapes S = Inr r \<longrightarrow>
      (\<exists>i \<in> set (map snd S). \<not> is_tuple i))
   \<and> ((\<forall>i \<in> set (map snd pre). is_tuple i) \<longrightarrow>
      calculate_batch_size_from_input_shapes (pre @ (k, TensorShape []) # post) = Inl IndexError)"
proof (intro conjI impI)
  assume "\<forall>i \<in> set (map snd S). is_tuple i"
  then have "filter (\<lambda>i. \<not> is_tuple i) (map snd S) = []"
    by (simp only: filter_leaf_empty)
  then show "calculate_batch_size_from_input_shapes S = Inl IndexError"
    by (simp add: calculate_batch_size_from_input_shapes_def)
next
  assume "\<forall>i \<in> set (map snd pre). is_tuple i"
  then have "filter (\<lambda>i. \<not> is_tuple i) (map snd pre) = []"
    by (simp only: filter_leaf_empty)
  then show "calculate_batch_size_from_input_shapes (pre @ (k, TensorShape (d # ds)) # post)
               = Inr (Dim d)"
    by (simp add: calculate_batch_size_from_input_shapes_def)
next
  assume r: "calculate_batch_size_from_input_shapes S = Inr r"
  show "\<exists>i \<in> set (map snd S). \<not> is_tuple i"
  proof (rule ccontr)
    assume "\<not> (\<exists>i \<in> set (map snd S). \<not> is_tuple i)"
    then have "filter (\<lambda>i. \<not> is_tuple i) (map snd S) = []"
      by (simp only: filter_leaf_empty) blast
    with r show False
      by (simp add: calculate_batch_size_from_input_shapes_def)
  qed
next
  assume "\<forall>i \<in> set (map snd pre). is_tuple i"
  then have "filter (\<lambda>i. \<not> is_tuple i) (map snd pre) = []"
    by (simp only: filter_leaf_empty)
  then show "calculate_batch_size_from_input_shapes (pre @ (k, TensorShape []) # post)
               = Inl IndexError"
    by (simp add: calculate_batch_size_from_input_shapes_def)
qed

theorem batch_size_discovery_partial_witness:
  "list_all is_tuple (map snd [(''r'', ShapeTuple [TensorShape [Some 3, Some 1], TensorShape [Some 3, Some 1]])])
   \<and> calculate_batch_size_from_input_shapes
        [(''r'', ShapeTuple [TensorShape [Some 3, Some 1], TensorShape [Some 3, Some 1]])] = Inl IndexError
   \<and> calculate_batch_size_from_input_shapes
        ([(''r'', ShapeTuple [TensorShape [Some 3, Some 1], TensorShape [Some 3, Some 1]])]
          @ (''a'', TensorShape (None # [Some 4])) # [(''b'', TensorShape [Some 7, Some 2])]) = Inr (Dim None)
   \<and> calculate_batch_size_from_input_shapes
        ([(''r'', ShapeTuple [TensorShape [Some 3, Some 1], TensorShape [Some 3, Some 1]])]
          @ (''a'', TensorShape []) # [(''b'', TensorShape [Some 7, Some 2])]) = Inl IndexError
   \<and> calculate_batch_size_from_input_shapes [(''a'', TensorShape [Some 5, Some 4])] = Inr (Dim (Some 5))
   \<and> (\<exists>i \<in> set (map snd [(''a'', TensorShape [Some 5, Some 4])]). \<not> is_tuple i)"
  using batch_size_discovery_partial [of
      "[(''r'', ShapeTuple [TensorShape [Some 3, Some 1], TensorShape [Some 3, Some 1]])]"
      "[(''r'', ShapeTuple [TensorShape [Some 3, Some 1], TensorShape [Some 3, Some 1]])]"
      "''a''" None "[Some 4]" "[(''b'', TensorShape [Some 7, Some 2])]" "Dim None"]
    batch_size_discovery_partial [of "[(''a'', TensorShape [Some 5, Some 4])]" "[]" "''a''"
      "Some 5" "[Some 4]" "[]" "Dim (Some 5)"]
  by simp

end
